theory Spec2Isabelle
  imports Main
begin

section \<open>The editor slice of the store (store/editorSlice.ts)\<close>

text \<open>
  The slice state holds the edit history, the cursor into it, the busy flag and the
  last error message. An artifact (a \<^verbatim>\<open>File\<close> object) is opaque, so the state is
  polymorphic in it. \<^verbatim>\<open>historyIndex\<close> is a JavaScript number; every value the
  program stores in it is an integer, so it is an \<^typ>\<open>int\<close> here.
\<close>

text \<open>
  A JavaScript string is the sequence of its UTF-16 code units. \<open>js\<close> gives the code
  units of a literal written in ASCII.
\<close>

type_synonym js_string = "nat list"

definition js :: "string \<Rightarrow> js_string" where
  "js s = map of_char s"

record 'a EditorState =
  history :: "'a list"
  historyIndex :: int
  isLoading :: bool
  error :: "js_string option"

definition initialState :: "'a EditorState" where
  "initialState = \<lparr> history = [], historyIndex = - 1, isLoading = True, error = None \<rparr>"

text \<open>
  \<^verbatim>\<open>Array.prototype.slice(start, end)\<close>: a negative bound counts from the end of the
  array and is clamped at 0, a non-negative bound is clamped at the length; the
  result is empty when the resolved start is not below the resolved end.
\<close>

definition js_rel_index :: "int \<Rightarrow> int \<Rightarrow> int" where
  "js_rel_index len i = (if i < 0 then max (len + i) 0 else min i len)"

definition js_slice :: "'a list \<Rightarrow> int \<Rightarrow> int \<Rightarrow> 'a list" where
  "js_slice xs start fin =
     (let len = int (length xs);
          k = js_rel_index len start;
          final = js_rel_index len fin
      in take (nat (final - k)) (drop (nat k) xs))"

text \<open>The reducers, one definition per case of \<^verbatim>\<open>createSlice\<close>.\<close>

definition setHistoryState :: "'a EditorState \<Rightarrow> 'a list \<Rightarrow> int \<Rightarrow> 'a EditorState" where
  "setHistoryState state h i = state\<lparr> history := h, historyIndex := i \<rparr>"

definition setHistory :: "'a EditorState \<Rightarrow> 'a list \<Rightarrow> 'a EditorState" where
  "setHistory state h = state\<lparr> history := h \<rparr>"

definition setHistoryIndex :: "'a EditorState \<Rightarrow> int \<Rightarrow> 'a EditorState" where
  "setHistoryIndex state i = state\<lparr> historyIndex := i \<rparr>"

definition addImageToHistory :: "'a EditorState \<Rightarrow> 'a \<Rightarrow> 'a EditorState" where
  "addImageToHistory state payload =
     (let newHistory = js_slice (history state) 0 (historyIndex state + 1) @ [payload]
      in state\<lparr> history := newHistory, historyIndex := int (length newHistory) - 1 \<rparr>)"

definition resetHistory :: "'a EditorState \<Rightarrow> 'a EditorState" where
  "resetHistory state = state\<lparr> history := [], historyIndex := - 1 \<rparr>"

definition setIsLoading :: "'a EditorState \<Rightarrow> bool \<Rightarrow> 'a EditorState" where
  "setIsLoading state b = state\<lparr> isLoading := b \<rparr>"

definition setError :: "'a EditorState \<Rightarrow> js_string option \<Rightarrow> 'a EditorState" where
  "setError state e = state\<lparr> error := e \<rparr>"

text \<open>The actions of the slice and the reducer that dispatches on them.\<close>

datatype 'a action =
    SetHistoryState "'a list" int
  | SetHistory "'a list"
  | SetHistoryIndex int
  | AddImageToHistory 'a
  | ResetHistory
  | SetIsLoading bool
  | SetError "js_string option"

fun editorReducer :: "'a EditorState \<Rightarrow> 'a action \<Rightarrow> 'a EditorState" where
  "editorReducer state (SetHistoryState h i) = setHistoryState state h i"
| "editorReducer state (SetHistory h) = setHistory state h"
| "editorReducer state (SetHistoryIndex i) = setHistoryIndex state i"
| "editorReducer state (AddImageToHistory f) = addImageToHistory state f"
| "editorReducer state ResetHistory = resetHistory state"
| "editorReducer state (SetIsLoading b) = setIsLoading state b"
| "editorReducer state (SetError e) = setError state e"

text \<open>
  What the pages read from the store: \<^verbatim>\<open>history[historyIndex]\<close> is
  \<^verbatim>\<open>undefined\<close> outside the array, \<^verbatim>\<open>history[0]\<close> likewise on the empty
  array, and \<^verbatim>\<open>canUndo = historyIndex > 0\<close> (pages/EditorPage.tsx).
\<close>

definition js_index :: "'a list \<Rightarrow> int \<Rightarrow> 'a option" where
  "js_index xs i = (if 0 \<le> i \<and> i < int (length xs) then Some (xs ! nat i) else None)"

definition current :: "'a EditorState \<Rightarrow> 'a option" where
  "current state = js_index (history state) (historyIndex state)"

definition original :: "'a EditorState \<Rightarrow> 'a option" where
  "original state = js_index (history state) 0"

definition canUndo :: "'a EditorState \<Rightarrow> bool" where
  "canUndo state \<longleftrightarrow> historyIndex state > 0"

text \<open>
  The typed errors of the history store. No reducer of the slice contains a
  \<^verbatim>\<open>throw\<close>, so dispatching an action always returns the next state: the result
  of \<open>dispatch\<close> is never an \<open>Inl\<close>.
\<close>

datatype store_error = InvalidStateError | OutOfRangeError

definition dispatch :: "'a EditorState \<Rightarrow> 'a action \<Rightarrow> store_error + 'a EditorState" where
  "dispatch state a = Inr (editorReducer state a)"

text \<open>
  The invariant of the data model: the cursor is -1 on the empty history and a valid
  index otherwise.
\<close>

definition history_inv :: "'a EditorState \<Rightarrow> bool" where
  "history_inv state =
     (if history state = [] then historyIndex state = - 1
      else 0 \<le> historyIndex state \<and> historyIndex state < int (length (history state)))"

section \<open>The handlers of the pages (pages/EditorPage.tsx, pages/HomePage.tsx)\<close>

text \<open>
  A handler reads the store values of its render and then performs effects in program
  order: actions dispatched to the store, calls of the external image service, updates
  of the component's local state, and navigation. A handler is modelled as the list of
  its effects; \<open>run\<close> applies the dispatched actions to the store.
\<close>

datatype Tab = GenerativeFill | MagicEraser | Adjust | Filters | StylePresets | Crop | Upscale

datatype service =
    GenerateEditedImage | GenerateFilteredImage | GenerateAdjustedImage
  | RemoveImageBackground | UpscaleImage | GenerateArtStyleImage | RemoveObjectWithMask

datatype ui_effect =
    SetCropUndefined | SetCompletedCropUndefined | SetMaskDataUrlNull
  | SetActiveTab Tab | ClearCanvas | SetEditHotspotNull | SetDisplayHotspotNull

datatype 'a event =
    Dispatch "'a action"
  | ExternalCall service
  | Ui ui_effect
  | Navigate js_string

fun step :: "'a EditorState \<Rightarrow> 'a event \<Rightarrow> 'a EditorState" where
  "step state (Dispatch a) = editorReducer state a"
| "step state (ExternalCall _) = state"
| "step state (Ui _) = state"
| "step state (Navigate _) = state"

definition run :: "'a EditorState \<Rightarrow> 'a event list \<Rightarrow> 'a EditorState" where
  "run state evs = foldl step state evs"

fun is_call :: "'a event \<Rightarrow> bool" where
  "is_call (ExternalCall _) = True"
| "is_call _ = False"

definition issues_call :: "'a event list \<Rightarrow> bool" where
  "issues_call evs = list_ex is_call evs"

text \<open>The store as it is at the moment the first external call is issued.\<close>

definition state_at_call :: "'a EditorState \<Rightarrow> 'a event list \<Rightarrow> 'a EditorState" where
  "state_at_call state evs = run state (takeWhile (\<lambda>e. \<not> is_call e) evs)"

text \<open>
  The busy-flag discipline of a handler run from the store state \<open>state\<close>: it issues
  the external call, all it did before the call is to dispatch
  \<^verbatim>\<open>setIsLoading(true)\<close> and \<^verbatim>\<open>setError(null)\<close>, so the flag is up when the call
  is issued, and the flag is down when the handler has finished.
\<close>

definition busy_around_call :: "'a EditorState \<Rightarrow> 'a event list \<Rightarrow> bool" where
  "busy_around_call state evs \<longleftrightarrow>
     issues_call evs
     \<and> takeWhile (\<lambda>e. \<not> is_call e) evs = [Dispatch (SetIsLoading True), Dispatch (SetError None)]
     \<and> isLoading (state_at_call state evs)
     \<and> \<not> isLoading (run state evs)"

fun is_append :: "'a event \<Rightarrow> bool" where
  "is_append (Dispatch (AddImageToHistory _)) = True"
| "is_append _ = False"

text \<open>
  A value caught by \<^verbatim>\<open>catch (err)\<close> and the message the handlers store for it:
  \<^verbatim>\<open>err instanceof Error ? err.message : 'An unknown error occurred.'\<close>
\<close>

datatype thrown = JsError js_string | NonError

fun errorMessage :: "thrown \<Rightarrow> js_string" where
  "errorMessage (JsError m) = m"
| "errorMessage NonError = (js ''An unknown error occurred.'')"

text \<open>
  \<^verbatim>\<open>String.prototype.trim\<close> removes the white space and the line terminators of
  ECMAScript at both ends: TAB, LF, VT, FF, CR, SPACE, NO-BREAK SPACE (U+00A0), U+1680,
  U+2000 to U+200A, U+2028, U+2029, U+202F, U+205F, U+3000 and U+FEFF.
\<close>

definition js_whitespace :: "nat \<Rightarrow> bool" where
  "js_whitespace c \<longleftrightarrow>
     c \<in> set [0x09, 0x0A, 0x0B, 0x0C, 0x0D, 0x20, 0xA0, 0x1680,
               0x2028, 0x2029, 0x202F, 0x205F, 0x3000, 0xFEFF]
     \<or> (0x2000 \<le> c \<and> c \<le> 0x200A)"

definition js_trim :: "js_string \<Rightarrow> js_string" where
  "js_trim s = rev (dropWhile js_whitespace (rev (dropWhile js_whitespace s)))"

definition addNewImage :: "'a \<Rightarrow> Tab option \<Rightarrow> bool \<Rightarrow> 'a event list" where
  "addNewImage newImageFile newTab canvas =
     [Dispatch (AddImageToHistory newImageFile),
      Ui SetCropUndefined, Ui SetCompletedCropUndefined, Ui SetMaskDataUrlNull]
     @ (case newTab of Some t \<Rightarrow> [Ui (SetActiveTab t)] | None \<Rightarrow> [])
     @ (if canvas then [Ui ClearCanvas] else [])"

text \<open>
  The body shared by the asynchronous edit handlers once their guard has passed:
  \<^verbatim>\<open>dispatch(setIsLoading(true)); dispatch(setError(null));
  try { url = await service(...); file = dataURLtoFile(url, name); addNewImage(file); extra }
  catch (err) { dispatch(setError(...)) } finally { dispatch(setIsLoading(false)) }\<close>
  \<open>outcome\<close> is what the awaited call does (\<open>Inl\<close>: it throws, \<open>Inr\<close>: the data
  URL it returns) and \<open>toFile\<close> is \<^verbatim>\<open>dataURLtoFile\<close>, which throws on a malformed
  URL. \<open>canvas\<close> says whether \<^verbatim>\<open>canvasRef.current\<close> is set.
\<close>

definition tryEdit ::
  "service \<Rightarrow> (thrown + js_string) \<Rightarrow> (js_string \<Rightarrow> thrown + 'a) \<Rightarrow> bool \<Rightarrow> 'a event list \<Rightarrow> 'a event list" where
  "tryEdit svc outcome toFile canvas extra =
     ExternalCall svc #
     (case outcome of
        Inl err \<Rightarrow> [Dispatch (SetError (Some (errorMessage err)))]
      | Inr url \<Rightarrow>
          (case toFile url of
             Inl err \<Rightarrow> [Dispatch (SetError (Some (errorMessage err)))]
           | Inr newImageFile \<Rightarrow> addNewImage newImageFile None canvas @ extra))"

definition editOperation ::
  "service \<Rightarrow> (thrown + js_string) \<Rightarrow> (js_string \<Rightarrow> thrown + 'a) \<Rightarrow> bool \<Rightarrow> 'a event list \<Rightarrow> 'a event list" where
  "editOperation svc outcome toFile canvas extra =
     [Dispatch (SetIsLoading True), Dispatch (SetError None)]
     @ tryEdit svc outcome toFile canvas extra
     @ [Dispatch (SetIsLoading False)]"

definition handleGenerate ::
  "'a EditorState \<Rightarrow> js_string \<Rightarrow> (int \<times> int) option
     \<Rightarrow> (thrown + js_string) \<Rightarrow> (js_string \<Rightarrow> thrown + 'a) \<Rightarrow> bool \<Rightarrow> 'a event list" where
  "handleGenerate state prompt editHotspot outcome toFile canvas =
     (if current state = None \<or> js_trim prompt = [] \<or> editHotspot = None then []
      else editOperation GenerateEditedImage outcome toFile canvas
             [Ui SetEditHotspotNull, Ui SetDisplayHotspotNull])"

definition handleApplyFilter ::
  "'a EditorState \<Rightarrow> (thrown + js_string) \<Rightarrow> (js_string \<Rightarrow> thrown + 'a) \<Rightarrow> bool \<Rightarrow> 'a event list" where
  "handleApplyFilter state outcome toFile canvas =
     (if current state = None then []
      else editOperation GenerateFilteredImage outcome toFile canvas [])"

definition handleApplyAdjustment ::
  "'a EditorState \<Rightarrow> (thrown + js_string) \<Rightarrow> (js_string \<Rightarrow> thrown + 'a) \<Rightarrow> bool \<Rightarrow> 'a event list" where
  "handleApplyAdjustment state outcome toFile canvas =
     (if current state = None then []
      else editOperation GenerateAdjustedImage outcome toFile canvas [])"

definition handleRemoveBackground ::
  "'a EditorState \<Rightarrow> (thrown + js_string) \<Rightarrow> (js_string \<Rightarrow> thrown + 'a) \<Rightarrow> bool \<Rightarrow> 'a event list" where
  "handleRemoveBackground state outcome toFile canvas =
     (if current state = None then []
      else editOperation RemoveImageBackground outcome toFile canvas [])"

definition handleUpscale ::
  "'a EditorState \<Rightarrow> (thrown + js_string) \<Rightarrow> (js_string \<Rightarrow> thrown + 'a) \<Rightarrow> bool \<Rightarrow> 'a event list" where
  "handleUpscale state outcome toFile canvas =
     (if current state = None then []
      else editOperation UpscaleImage outcome toFile canvas [])"

definition handleApplyArtStyle ::
  "'a EditorState \<Rightarrow> (thrown + js_string) \<Rightarrow> (js_string \<Rightarrow> thrown + 'a) \<Rightarrow> bool \<Rightarrow> 'a event list" where
  "handleApplyArtStyle state outcome toFile canvas =
     (if current state = None then []
      else editOperation GenerateArtStyleImage outcome toFile canvas [])"

text \<open>
  \<^verbatim>\<open>handleMagicErase\<close> needs the drawn mask, the canvas and the image element, and
  inside its \<^verbatim>\<open>try\<close> it can throw before the service is called: when the mask canvas
  has no 2D context (\<open>maskCtx\<close> false) or when the mask's data URL does not convert
  (\<open>maskFile\<close> an \<open>Inl\<close>). The canvas is present whenever the guard has passed.
\<close>

definition handleMagicErase ::
  "'a EditorState \<Rightarrow> js_string option \<Rightarrow> bool \<Rightarrow> bool \<Rightarrow> bool \<Rightarrow> (thrown + 'a)
     \<Rightarrow> (thrown + js_string) \<Rightarrow> (js_string \<Rightarrow> thrown + 'a) \<Rightarrow> 'a event list" where
  "handleMagicErase state maskDataUrl canvas img maskCtx maskFile outcome toFile =
     (if current state = None \<or> maskDataUrl = None \<or> maskDataUrl = Some [] \<or> \<not> canvas \<or> \<not> img
      then []
      else [Dispatch (SetIsLoading True), Dispatch (SetError None)]
           @ (if \<not> maskCtx then [Dispatch (SetError (Some (js ''Could not create mask context.'')))]
              else (case maskFile of
                      Inl err \<Rightarrow> [Dispatch (SetError (Some (errorMessage err)))]
                    | Inr _ \<Rightarrow> tryEdit RemoveObjectWithMask outcome toFile True []))
           @ [Dispatch (SetIsLoading False)])"

definition handleHistoryNavigation :: "'a EditorState \<Rightarrow> int \<Rightarrow> 'a event list" where
  "handleHistoryNavigation state index =
     (if index \<ge> 0 \<and> index < int (length (history state))
      then [Dispatch (SetHistoryIndex index), Ui SetEditHotspotNull, Ui SetDisplayHotspotNull]
      else [])"

definition handleReset :: "'a EditorState \<Rightarrow> 'a event list" where
  "handleReset state =
     (if length (history state) > 0
      then [Dispatch (SetHistoryIndex 0), Dispatch (SetError None),
            Ui SetEditHotspotNull, Ui SetDisplayHotspotNull]
      else [])"

text \<open>
  Seeding, as \<^verbatim>\<open>handleFileSelect\<close> of the home page does it: the first file of the
  selection, when there is one, becomes the whole history with the cursor on it.
\<close>

definition handleFileSelect :: "'a list option \<Rightarrow> 'a event list" where
  "handleFileSelect files =
     (case files of
        Some (file # _) \<Rightarrow> [Dispatch (SetHistoryState [file] 0), Navigate (js ''/editor'')]
      | _ \<Rightarrow> [])"

section \<open>The response of the image service (services/geminiService.ts)\<close>

record inlineData =
  mimeType :: js_string
  b64data :: js_string

record candidate =
  parts :: "inlineData option list"
  finishReason :: "js_string option"

record promptFeedback =
  blockReason :: "js_string option"
  blockReasonMessage :: "js_string option"

record GenerateContentResponse =
  promptFeedback :: "promptFeedback option"
  candidates :: "candidate list"
  responseText :: "js_string option"

text \<open>A string is truthy when it is present and not empty; \<^verbatim>\<open>s || d\<close> picks \<open>d\<close> otherwise.\<close>

fun truthy :: "js_string option \<Rightarrow> bool" where
  "truthy None = False"
| "truthy (Some s) = (s \<noteq> [])"

fun or_else :: "js_string option \<Rightarrow> js_string \<Rightarrow> js_string" where
  "or_else None d = d"
| "or_else (Some s) d = (if s = [] then d else s)"

definition firstCandidate :: "GenerateContentResponse \<Rightarrow> candidate option" where
  "firstCandidate response = (case candidates response of [] \<Rightarrow> None | c # _ \<Rightarrow> Some c)"

definition imagePartFromResponse :: "GenerateContentResponse \<Rightarrow> inlineData option" where
  "imagePartFromResponse response =
     (case firstCandidate response of
        None \<Rightarrow> None
      | Some c \<Rightarrow> (case List.find (\<lambda>part. part \<noteq> None) (parts c) of
                    None \<Rightarrow> None | Some part \<Rightarrow> part))"

definition blockedBy :: "GenerateContentResponse \<Rightarrow> (js_string \<times> js_string option) option" where
  "blockedBy response =
     (case promptFeedback response of
        None \<Rightarrow> None
      | Some fb \<Rightarrow> (case blockReason fb of
                     None \<Rightarrow> None
                   | Some r \<Rightarrow> if r = [] then None else Some (r, blockReasonMessage fb)))"

definition stoppedBy :: "GenerateContentResponse \<Rightarrow> js_string option" where
  "stoppedBy response =
     (case firstCandidate response of
        None \<Rightarrow> None
      | Some c \<Rightarrow> (case finishReason c of
                    None \<Rightarrow> None
                  | Some r \<Rightarrow> if r \<noteq> [] \<and> r \<noteq> (js ''STOP'') then Some r else None))"

definition noImageMessage :: "GenerateContentResponse \<Rightarrow> js_string \<Rightarrow> js_string" where
  "noImageMessage response ctxt =
     (js ''The AI model did not return an image for the '') @ ctxt @ (js ''. '')
     @ (case map_option js_trim (responseText response) of
          None \<Rightarrow> (js ''This can happen due to safety filters or if the request is too complex. Please try rephrasing your prompt to be more direct.'')
        | Some textFeedback \<Rightarrow>
            if textFeedback = []
            then (js ''This can happen due to safety filters or if the request is too complex. Please try rephrasing your prompt to be more direct.'')
            else (js ''The model responded with text: '') @ [0x22] @ textFeedback @ [0x22])"

text \<open>
  \<^verbatim>\<open>handleApiResponse\<close>: a blocked prompt throws first; otherwise the first inline
  image of the first candidate is returned as a data URL; otherwise it throws, with
  the finish reason when there is one other than \<^verbatim>\<open>STOP\<close>.
\<close>

definition handleApiResponse :: "GenerateContentResponse \<Rightarrow> js_string \<Rightarrow> thrown + js_string" where
  "handleApiResponse response ctxt =
     (case blockedBy response of
        Some (reason, message) \<Rightarrow>
          Inl (JsError ((js ''Request was blocked. Reason: '') @ reason @ (js ''. '') @ or_else message []))
      | None \<Rightarrow>
          (case imagePartFromResponse response of
             Some d \<Rightarrow> Inr ((js ''data:'') @ mimeType d @ (js '';base64,'') @ b64data d)
           | None \<Rightarrow>
               (case stoppedBy response of
                  Some reason \<Rightarrow>
                    Inl (JsError ((js ''Image generation for '') @ ctxt
                           @ (js '' stopped unexpectedly. Reason: '') @ reason
                           @ (js ''. This often relates to safety settings.'')))
                | None \<Rightarrow> Inl (JsError (noImageMessage response ctxt)))))"

section \<open>The batch minter (components/home/CollectionMinter.tsx)\<close>












section \<open>Properties of the history store\<close>

lemma js_Nil_iff [simp]: "js s = [] \<longleftrightarrow> s = []"
  by (simp add: js_def)

lemma js_slice_prefix:
  "0 \<le> c \<Longrightarrow> c < int (length xs) \<Longrightarrow> js_slice xs 0 (c + 1) = take (nat c + 1) xs"
  by (simp add: js_slice_def js_rel_index_def Let_def min_def nat_add_distrib)

lemma js_slice_empty_end: "js_slice xs 0 0 = []"
  by (simp add: js_slice_def js_rel_index_def)

lemma addImageToHistory_in_range:
  assumes "0 \<le> historyIndex s" "historyIndex s < int (length (history s))"
  shows "addImageToHistory s a =
           s\<lparr> history := take (nat (historyIndex s) + 1) (history s) @ [a],
              historyIndex := historyIndex s + 1 \<rparr>"
proof -
  have len: "int (length (take (nat (historyIndex s) + 1) (history s))) = historyIndex s + 1"
    using assms by (auto simp add: min_def)
  show ?thesis
    using assms len by (simp add: addImageToHistory_def js_slice_prefix Let_def)
qed

lemma nth_notin_take:
  assumes "distinct xs" "n \<le> j" "j < length xs"
  shows "xs ! j \<notin> set (take n xs)"
proof
  assume "xs ! j \<in> set (take n xs)"
  then obtain k where k: "k < length (take n xs)" "take n xs ! k = xs ! j"
    by (auto simp: in_set_conv_nth)
  then have "k < n" "k < length xs" "xs ! k = xs ! j" by auto
  with assms have "k = j" by (simp add: nth_eq_iff_index_eq)
  with \<open>k < n\<close> \<open>n \<le> j\<close> show False by simp
qed

text \<open>
  Claim C1. On a non-empty history with a valid cursor \<open>c\<close>, \<^verbatim>\<open>addImageToHistory\<close>
  yields the entries at the indices \<open>0..c\<close> followed by the new artifact, and the cursor
  \<open>c + 1\<close>, which is the new last index. At the tip the length grows by exactly one.
  Below the tip the new length is \<open>c + 2\<close>, and an artifact previously at an index
  above \<open>c\<close> is still in the sequence exactly when it equals the new artifact or
  also occurs at an index up to \<open>c\<close>; in particular it is gone whenever the
  artifacts of the history are pairwise distinct and the new one is not among them.
\<close>

theorem addImageToHistory_truncates:
  assumes "history s \<noteq> []" and "0 \<le> historyIndex s"
    and "historyIndex s < int (length (history s))"
  shows "history (addImageToHistory s a) = take (nat (historyIndex s) + 1) (history s) @ [a]
    \<and> historyIndex (addImageToHistory s a) = historyIndex s + 1
    \<and> historyIndex (addImageToHistory s a) = int (length (history (addImageToHistory s a))) - 1
    \<and> (historyIndex s = int (length (history s)) - 1 \<longrightarrow>
         history (addImageToHistory s a) = history s @ [a]
         \<and> length (history (addImageToHistory s a)) = length (history s) + 1)
    \<and> (historyIndex s < int (length (history s)) - 1 \<longrightarrow>
         int (length (history (addImageToHistory s a))) = historyIndex s + 2
         \<and> (\<forall>j. historyIndex s < int j \<and> j < length (history s) \<longrightarrow>
               (history s ! j \<in> set (history (addImageToHistory s a))
                \<longleftrightarrow> history s ! j = a
                    \<or> history s ! j \<in> set (take (nat (historyIndex s) + 1) (history s))))
         \<and> (distinct (history s) \<and> a \<notin> set (history s) \<longrightarrow>
               (\<forall>j. historyIndex s < int j \<and> j < length (history s) \<longrightarrow>
                  history s ! j \<notin> set (history (addImageToHistory s a)))))"
proof -
  let ?c = "historyIndex s"
  let ?h = "history s"
  have eq: "addImageToHistory s a = s\<lparr> history := take (nat ?c + 1) ?h @ [a], historyIndex := ?c + 1 \<rparr>"
    using assms(2,3) by (rule addImageToHistory_in_range)
  have len: "int (length (take (nat ?c + 1) ?h)) = ?c + 1"
    using assms by (auto simp add: min_def)
  have tip: "?c = int (length ?h) - 1 \<Longrightarrow> take (nat ?c + 1) ?h = ?h"
    by simp
  have gone: "?h ! j \<notin> set (take (nat ?c + 1) ?h @ [a])"
    if "distinct ?h" "a \<notin> set ?h" "?c < int j" "j < length ?h" for j
  proof -
    have "nat ?c + 1 \<le> j" using that(3) assms(2) by linarith
    then have "?h ! j \<notin> set (take (nat ?c + 1) ?h)"
      using that(1,4) by (rule_tac nth_notin_take) auto
    moreover have "?h ! j \<noteq> a" using that(2,4) by auto
    ultimately show ?thesis by simp
  qed
  show ?thesis
    using len tip gone by (auto simp add: eq)
qed

theorem addImageToHistory_truncates_witness:
  "history (addImageToHistory \<lparr>history = [1, 2, 3 :: nat], historyIndex = 0, isLoading = False, error = None\<rparr> 4) = [1, 4]
   \<and> historyIndex (addImageToHistory \<lparr>history = [1, 2, 3 :: nat], historyIndex = 0, isLoading = False, error = None\<rparr> 4) = 1
   \<and> 2 \<notin> set (history (addImageToHistory \<lparr>history = [1, 2, 3 :: nat], historyIndex = 0, isLoading = False, error = None\<rparr> 4))"
  using addImageToHistory_truncates
    [of "\<lparr>history = [1, 2, 3 :: nat], historyIndex = 0, isLoading = False, error = None\<rparr>" 4]
  by simp

text \<open>
  The truncation is by position, not by value: from the history \<open>[1, 2]\<close> with the
  cursor on index 0, appending \<open>2\<close> leaves the artifact that was at index 1 in the
  sequence.
\<close>

theorem addImageToHistory_keeps_duplicate:
  "(0 :: int) < int (length [1, 2 :: nat]) - 1
   \<and> (0 :: int) < int (1 :: nat) \<and> (1 :: nat) < length [1, 2 :: nat]
   \<and> [1, 2 :: nat] ! 1
       \<in> set (history (addImageToHistory
            \<lparr>history = [1, 2 :: nat], historyIndex = 0, isLoading = False, error = None\<rparr> 2))"
  by (simp add: addImageToHistory_def js_slice_def js_rel_index_def)

text \<open>
  Claim C7. After \<^verbatim>\<open>resetHistory\<close>, from any state, the history is empty and the
  cursor is -1, so the current artifact is absent and \<^verbatim>\<open>canUndo\<close> is false.
\<close>

theorem resetHistory_clears:
  "history (resetHistory s) = []
   \<and> historyIndex (resetHistory s) = - 1
   \<and> current (resetHistory s) = None
   \<and> \<not> canUndo (resetHistory s)"
  by (simp add: resetHistory_def current_def js_index_def canUndo_def)

lemma addImageToHistory_on_empty:
  assumes "history s = []" "historyIndex s = - 1"
  shows "addImageToHistory s a = s\<lparr> history := [a], historyIndex := 0 \<rparr>"
  using assms by (simp add: addImageToHistory_def js_slice_empty_end)

lemma history_inv_addImageToHistory:
  assumes "history_inv s"
  shows "history_inv (addImageToHistory s a)"
proof (cases "history s = []")
  case True
  with assms have "historyIndex s = - 1" by (simp add: history_inv_def)
  with True show ?thesis
    by (simp add: addImageToHistory_on_empty history_inv_def)
next
  case False
  with assms have "0 \<le> historyIndex s" "historyIndex s < int (length (history s))"
    by (simp_all add: history_inv_def)
  then show ?thesis
    by (auto simp add: addImageToHistory_in_range history_inv_def min_def)
qed

lemma run_handleHistoryNavigation:
  "run s (handleHistoryNavigation s i) =
     (if 0 \<le> i \<and> i < int (length (history s)) then s\<lparr> historyIndex := i \<rparr> else s)"
  by (simp add: handleHistoryNavigation_def run_def setHistoryIndex_def)

text \<open>
  Claim C2. The invariant (cursor -1 on the empty history, a valid index otherwise)
  holds in the initial state and is preserved by seeding, by
  \<^verbatim>\<open>addImageToHistory\<close>, by \<^verbatim>\<open>handleHistoryNavigation\<close> and by
  \<^verbatim>\<open>resetHistory\<close>.
\<close>

theorem history_inv_preserved:
  "history_inv (initialState :: 'a EditorState)
   \<and> (history_inv (s :: 'a EditorState) \<longrightarrow>
        history_inv (editorReducer s (SetHistoryState [f] 0))
      \<and> history_inv (run s (handleFileSelect (Some (f # fs))))
      \<and> history_inv (editorReducer s (AddImageToHistory a))
      \<and> history_inv (run s (handleHistoryNavigation s i))
      \<and> history_inv (editorReducer s ResetHistory))"
proof -
  have init: "history_inv (initialState :: 'a EditorState)"
    by (simp add: history_inv_def initialState_def)
  have seed: "history_inv (editorReducer s (SetHistoryState [f] 0))"
    by (simp add: history_inv_def setHistoryState_def)
  have sel: "run s (handleFileSelect (Some (f # fs))) = editorReducer s (SetHistoryState [f] 0)"
    by (simp add: handleFileSelect_def run_def)
  have reset: "history_inv (editorReducer s ResetHistory)"
    by (simp add: history_inv_def resetHistory_def)
  have seek: "history_inv (run s (handleHistoryNavigation s i))" if "history_inv s"
    using that by (auto simp add: run_handleHistoryNavigation history_inv_def)
  have app: "history_inv (editorReducer s (AddImageToHistory a))" if "history_inv s"
    using that by (simp add: history_inv_addImageToHistory)
  show ?thesis
    using init seed sel reset seek app by simp
qed

theorem history_inv_preserved_witness:
  "history_inv \<lparr>history = [1, 2 :: nat], historyIndex = 1, isLoading = False, error = None\<rparr>
   \<and> history_inv (editorReducer \<lparr>history = [1, 2 :: nat], historyIndex = 1, isLoading = False, error = None\<rparr>
        (AddImageToHistory 3))
   \<and> history_inv (run \<lparr>history = [1, 2 :: nat], historyIndex = 1, isLoading = False, error = None\<rparr>
        (handleHistoryNavigation \<lparr>history = [1, 2 :: nat], historyIndex = 1, isLoading = False, error = None\<rparr> 0))
   \<and> history_inv (editorReducer \<lparr>history = [1, 2 :: nat], historyIndex = 1, isLoading = False, error = None\<rparr>
        ResetHistory)"
  using history_inv_preserved
    [of "\<lparr>history = [1, 2 :: nat], historyIndex = 1, isLoading = False, error = None\<rparr>" 5 "[]" 3 0]
  by (simp add: history_inv_def)

text \<open>
  Claim C3. Appending to the empty history (cursor -1) does not fail with
  \<^verbatim>\<open>InvalidStateError\<close>: the reducer has no failing branch, and the dispatch returns
  the state whose history is the new artifact alone, with the cursor on it.
\<close>

theorem append_on_empty_tolerated:
  "history s = [] \<Longrightarrow> historyIndex s = - 1 \<Longrightarrow>
     dispatch s (AddImageToHistory a) = Inr (s\<lparr> history := [a], historyIndex := 0 \<rparr>)"
  by (simp add: dispatch_def addImageToHistory_on_empty)

theorem append_on_empty_tolerated_witness:
  "history (initialState :: nat EditorState) = []
   \<and> historyIndex (initialState :: nat EditorState) = - 1
   \<and> dispatch (initialState :: nat EditorState) (AddImageToHistory 7)
       = Inr \<lparr>history = [7], historyIndex = 0, isLoading = True, error = None\<rparr>"
  using append_on_empty_tolerated [of "initialState :: nat EditorState" 7]
  by (simp add: initialState_def)

text \<open>
  On the initial state the dispatch of an append returns a state, not the error.
\<close>

theorem append_on_empty_no_error:
  "dispatch \<lparr>history = [], historyIndex = - 1, isLoading = True, error = None\<rparr>
      (AddImageToHistory (7 :: nat)) \<noteq> Inl InvalidStateError"
  by (simp add: dispatch_def)

text \<open>
  Claim C5. For an index within the history, \<^verbatim>\<open>handleHistoryNavigation\<close> makes the
  current artifact the one at that index, leaves the sequence as it is, and doing it a
  second time changes nothing.
\<close>

theorem seek_in_range:
  assumes "0 \<le> i" and "i < int (length (history s))"
  shows "current (run s (handleHistoryNavigation s i)) = Some (history s ! nat i)
    \<and> history (run s (handleHistoryNavigation s i)) = history s
    \<and> historyIndex (run s (handleHistoryNavigation s i)) = i
    \<and> run (run s (handleHistoryNavigation s i))
          (handleHistoryNavigation (run s (handleHistoryNavigation s i)) i)
        = run s (handleHistoryNavigation s i)"
  using assms by (simp add: run_handleHistoryNavigation current_def js_index_def)

theorem seek_in_range_witness:
  "current (run \<lparr>history = [10, 20, 30 :: nat], historyIndex = 2, isLoading = False, error = None\<rparr>
      (handleHistoryNavigation
         \<lparr>history = [10, 20, 30 :: nat], historyIndex = 2, isLoading = False, error = None\<rparr> 1))
     = Some 20"
  using seek_in_range
    [of 1 "\<lparr>history = [10, 20, 30 :: nat], historyIndex = 2, isLoading = False, error = None\<rparr>"]
  by simp

text \<open>
  Claim C6. For an index outside the history (negative, or at or beyond the length),
  \<^verbatim>\<open>handleHistoryNavigation\<close> dispatches nothing: the cursor and the sequence, and
  the whole store state, stay as they are.
\<close>

theorem seek_out_of_range:
  assumes "i < 0 \<or> int (length (history s)) \<le> i"
  shows "handleHistoryNavigation s i = []
    \<and> run s (handleHistoryNavigation s i) = s
    \<and> historyIndex (run s (handleHistoryNavigation s i)) = historyIndex s
    \<and> history (run s (handleHistoryNavigation s i)) = history s"
  using assms by (auto simp add: handleHistoryNavigation_def run_def)

theorem seek_out_of_range_witness:
  "run \<lparr>history = [10, 20, 30 :: nat], historyIndex = 2, isLoading = False, error = None\<rparr>
      (handleHistoryNavigation
         \<lparr>history = [10, 20, 30 :: nat], historyIndex = 2, isLoading = False, error = None\<rparr> 3)
     = \<lparr>history = [10, 20, 30 :: nat], historyIndex = 2, isLoading = False, error = None\<rparr>
   \<and> run \<lparr>history = [10, 20, 30 :: nat], historyIndex = 2, isLoading = False, error = None\<rparr>
      (handleHistoryNavigation
         \<lparr>history = [10, 20, 30 :: nat], historyIndex = 2, isLoading = False, error = None\<rparr> (- 1))
     = \<lparr>history = [10, 20, 30 :: nat], historyIndex = 2, isLoading = False, error = None\<rparr>"
  using seek_out_of_range
    [of 3 "\<lparr>history = [10, 20, 30 :: nat], historyIndex = 2, isLoading = False, error = None\<rparr>"]
    seek_out_of_range
    [of "- 1" "\<lparr>history = [10, 20, 30 :: nat], historyIndex = 2, isLoading = False, error = None\<rparr>"]
  by (simp add: run_def)

text \<open>
  Claim C10. On the empty store state (no history, cursor -1) the append reducer does
  what seeding does: the result is the state \<^verbatim>\<open>setHistoryState\<close> gives for the
  one-element history and index 0, and dispatching it returns that state.
\<close>

theorem append_on_empty_is_seed:
  assumes "history s = []" and "historyIndex s = - 1"
  shows "addImageToHistory s a = setHistoryState s [a] 0
    \<and> history (addImageToHistory s a) = [a]
    \<and> historyIndex (addImageToHistory s a) = 0
    \<and> dispatch s (AddImageToHistory a) = dispatch s (SetHistoryState [a] 0)"
  using assms by (simp add: addImageToHistory_on_empty setHistoryState_def dispatch_def)

theorem append_on_empty_is_seed_witness:
  "addImageToHistory (initialState :: nat EditorState) 7
     = \<lparr>history = [7], historyIndex = 0, isLoading = True, error = None\<rparr>
   \<and> setHistoryState (initialState :: nat EditorState) [7] 0
     = \<lparr>history = [7], historyIndex = 0, isLoading = True, error = None\<rparr>"
  using append_on_empty_is_seed [of "initialState :: nat EditorState" 7]
  by (simp add: initialState_def setHistoryState_def)

section \<open>Properties of the edit handlers\<close>

lemma editOperation_throws:
  "editOperation svc (Inl err) toFile cv extra =
     [Dispatch (SetIsLoading True), Dispatch (SetError None), ExternalCall svc,
      Dispatch (SetError (Some (errorMessage err))), Dispatch (SetIsLoading False)]"
  by (simp add: editOperation_def tryEdit_def)

lemma editOperation_run_throws:
  "run s (editOperation svc (Inl err) toFile cv extra) =
     s\<lparr> isLoading := False, error := Some (errorMessage err) \<rparr>"
  by (simp add: editOperation_throws run_def setIsLoading_def setError_def)

lemma editOperation_append_only_on_success:
  assumes "list_ex is_append (editOperation svc outcome toFile cv (map Ui us))"
  shows "\<exists>url f. outcome = Inr url \<and> toFile url = Inr f"
proof (cases outcome)
  case (Inl err)
  with assms show ?thesis by (simp add: editOperation_throws)
next
  case (Inr url)
  show ?thesis
  proof (cases "toFile url")
    case (Inl err)
    with Inr assms show ?thesis by (simp add: editOperation_def tryEdit_def)
  next
    case (Inr f)
    with \<open>outcome = Inr url\<close> show ?thesis by simp
  qed
qed

lemma editOperation_before_call:
  "takeWhile (\<lambda>e. \<not> is_call e) (editOperation svc outcome toFile cv extra) =
     [Dispatch (SetIsLoading True), Dispatch (SetError None)]"
  by (simp add: editOperation_def tryEdit_def)

lemma editOperation_issues_call: "issues_call (editOperation svc outcome toFile cv extra)"
  by (simp add: editOperation_def tryEdit_def issues_call_def)

lemma run_ends_not_loading: "\<not> isLoading (run s (evs @ [Dispatch (SetIsLoading False)]))"
  by (simp add: run_def setIsLoading_def)

lemma editOperation_ends_not_loading:
  "\<not> isLoading (run s (editOperation svc outcome toFile cv extra))"
proof -
  have "editOperation svc outcome toFile cv extra =
          ([Dispatch (SetIsLoading True), Dispatch (SetError None)]
           @ tryEdit svc outcome toFile cv extra) @ [Dispatch (SetIsLoading False)]"
    by (simp add: editOperation_def)
  then show ?thesis by (simp only: run_ends_not_loading not_False_eq_True)
qed

text \<open>The shapes of the handlers: nothing at all when the guard fails.\<close>

lemma handleGenerate_shape:
  "handleGenerate s p h outcome toFile cv = []
   \<or> handleGenerate s p h outcome toFile cv =
       editOperation GenerateEditedImage outcome toFile cv
         (map Ui [SetEditHotspotNull, SetDisplayHotspotNull])"
  by (simp add: handleGenerate_def)

lemma handleMagicErase_shape:
  "handleMagicErase s m cv img ctx mf outcome toFile = []
   \<or> (\<exists>msg. handleMagicErase s m cv img ctx mf outcome toFile =
          [Dispatch (SetIsLoading True), Dispatch (SetError None),
           Dispatch (SetError (Some msg)), Dispatch (SetIsLoading False)])
   \<or> handleMagicErase s m cv img ctx mf outcome toFile =
       editOperation RemoveObjectWithMask outcome toFile True (map Ui [])"
  by (cases mf) (auto simp add: handleMagicErase_def editOperation_def)

lemma handlers_shape:
  assumes "evs \<in> {handleGenerate s prompt editHotspot outcome toFile canvas,
                  handleApplyFilter s outcome toFile canvas,
                  handleApplyAdjustment s outcome toFile canvas,
                  handleRemoveBackground s outcome toFile canvas,
                  handleUpscale s outcome toFile canvas,
                  handleApplyArtStyle s outcome toFile canvas,
                  handleMagicErase s maskDataUrl canvas img maskCtx maskFile outcome toFile}"
  shows "evs = []
     \<or> (\<exists>msg. evs = [Dispatch (SetIsLoading True), Dispatch (SetError None),
                      Dispatch (SetError (Some msg)), Dispatch (SetIsLoading False)])
     \<or> (\<exists>svc cv us. evs = editOperation svc outcome toFile cv (map Ui us))"
proof -
  have ui0: "([] :: 'a event list) = map Ui []" by simp
  have g: "?thesis" if "evs = handleGenerate s prompt editHotspot outcome toFile canvas"
    using that handleGenerate_shape [of s prompt editHotspot outcome toFile canvas] by metis
  have m: "?thesis"
    if "evs = handleMagicErase s maskDataUrl canvas img maskCtx maskFile outcome toFile"
    using that handleMagicErase_shape [of s maskDataUrl canvas img maskCtx maskFile outcome toFile]
    by metis
  have o: "?thesis" if "evs = (if current s = None then [] else editOperation svc outcome toFile canvas [])" for svc
    using that ui0 by (metis (full_types))
  from assms consider
      "evs = handleGenerate s prompt editHotspot outcome toFile canvas"
    | "evs = handleMagicErase s maskDataUrl canvas img maskCtx maskFile outcome toFile"
    | "evs = handleApplyFilter s outcome toFile canvas"
    | "evs = handleApplyAdjustment s outcome toFile canvas"
    | "evs = handleRemoveBackground s outcome toFile canvas"
    | "evs = handleUpscale s outcome toFile canvas"
    | "evs = handleApplyArtStyle s outcome toFile canvas"
    by auto
  then show ?thesis
  proof cases
    case 1 then show ?thesis by (rule g)
  next
    case 2 then show ?thesis by (rule m)
  next
    case 3 then show ?thesis by (intro o [of GenerateFilteredImage]) (simp add: handleApplyFilter_def)
  next
    case 4 then show ?thesis by (intro o [of GenerateAdjustedImage]) (simp add: handleApplyAdjustment_def)
  next
    case 5 then show ?thesis by (intro o [of RemoveImageBackground]) (simp add: handleRemoveBackground_def)
  next
    case 6 then show ?thesis by (intro o [of UpscaleImage]) (simp add: handleUpscale_def)
  next
    case 7 then show ?thesis by (intro o [of GenerateArtStyleImage]) (simp add: handleApplyArtStyle_def)
  qed
qed


text \<open>
  Claim C4. In every asynchronous edit handler of the editor page, when the awaited
  service call throws, the history and the cursor after the handler are what they were
  before it, no \<^verbatim>\<open>addImageToHistory\<close> is dispatched, and the message of the thrown
  value is stored as the error. An append is dispatched only when the call returned a
  data URL and that URL converted to a file.
\<close>

theorem failed_call_keeps_history:
  assumes "evs \<in> {handleGenerate s prompt editHotspot outcome toFile canvas,
                  handleApplyFilter s outcome toFile canvas,
                  handleApplyAdjustment s outcome toFile canvas,
                  handleRemoveBackground s outcome toFile canvas,
                  handleUpscale s outcome toFile canvas,
                  handleApplyArtStyle s outcome toFile canvas,
                  handleMagicErase s maskDataUrl canvas img maskCtx maskFile outcome toFile}"
  shows "(outcome = Inl err \<longrightarrow>
            history (run s evs) = history s
          \<and> historyIndex (run s evs) = historyIndex s
          \<and> \<not> list_ex is_append evs
          \<and> (issues_call evs \<longrightarrow> error (run s evs) = Some (errorMessage err)))
       \<and> (list_ex is_append evs \<longrightarrow> (\<exists>url f. outcome = Inr url \<and> toFile url = Inr f))"
proof -
  from assms consider
      (none) "evs = []"
    | (early) msg where "evs = [Dispatch (SetIsLoading True), Dispatch (SetError None),
                               Dispatch (SetError (Some msg)), Dispatch (SetIsLoading False)]"
    | (edit) svc cv us where "evs = editOperation svc outcome toFile cv (map Ui us)"
    using handlers_shape [OF assms] by blast
  then show ?thesis
  proof cases
    case none
    then show ?thesis by (simp add: run_def issues_call_def)
  next
    case early
    then show ?thesis
      by (simp add: run_def issues_call_def setIsLoading_def setError_def)
  next
    case edit
    have "list_ex is_append evs \<longrightarrow> (\<exists>url f. outcome = Inr url \<and> toFile url = Inr f)"
      using edit editOperation_append_only_on_success by blast
    moreover have "outcome = Inl err \<longrightarrow>
            history (run s evs) = history s
          \<and> historyIndex (run s evs) = historyIndex s
          \<and> \<not> list_ex is_append evs
          \<and> (issues_call evs \<longrightarrow> error (run s evs) = Some (errorMessage err))"
    proof
      assume failed: "outcome = Inl err"
      then have "run s evs = s\<lparr> isLoading := False, error := Some (errorMessage err) \<rparr>"
        using edit by (simp add: editOperation_run_throws)
      moreover have "\<not> list_ex is_append evs"
        using edit failed by (simp add: editOperation_throws)
      ultimately show "history (run s evs) = history s
          \<and> historyIndex (run s evs) = historyIndex s
          \<and> \<not> list_ex is_append evs
          \<and> (issues_call evs \<longrightarrow> error (run s evs) = Some (errorMessage err))"
        by simp
    qed
    ultimately show ?thesis by blast
  qed
qed

theorem failed_call_keeps_history_witness:
  "handleApiResponse
     \<lparr>promptFeedback = Some \<lparr>blockReason = Some (js ''SAFETY''), blockReasonMessage = None\<rparr>,
      candidates = [], responseText = None\<rparr> (js ''edit'')
     = Inl (JsError (js ''Request was blocked. Reason: SAFETY. ''))
   \<and> history (run \<lparr>history = [1, 2 :: nat], historyIndex = 0, isLoading = False, error = None\<rparr>
       (handleGenerate \<lparr>history = [1, 2 :: nat], historyIndex = 0, isLoading = False, error = None\<rparr>
          (js ''make it blue'') (Some (3, 4))
          (handleApiResponse
             \<lparr>promptFeedback = Some \<lparr>blockReason = Some (js ''SAFETY''), blockReasonMessage = None\<rparr>,
              candidates = [], responseText = None\<rparr> (js ''edit''))
          (\<lambda>url. Inr 9) True)) = [1, 2]
   \<and> historyIndex (run \<lparr>history = [1, 2 :: nat], historyIndex = 0, isLoading = False, error = None\<rparr>
       (handleGenerate \<lparr>history = [1, 2 :: nat], historyIndex = 0, isLoading = False, error = None\<rparr>
          (js ''make it blue'') (Some (3, 4))
          (handleApiResponse
             \<lparr>promptFeedback = Some \<lparr>blockReason = Some (js ''SAFETY''), blockReasonMessage = None\<rparr>,
              candidates = [], responseText = None\<rparr> (js ''edit''))
          (\<lambda>url. Inr 9) True)) = 0"
proof -
  have thrown: "handleApiResponse
     \<lparr>promptFeedback = Some \<lparr>blockReason = Some (js ''SAFETY''), blockReasonMessage = None\<rparr>,
      candidates = [], responseText = None\<rparr> (js ''edit'')
     = Inl (JsError (js ''Request was blocked. Reason: SAFETY. ''))"
    by (simp add: handleApiResponse_def blockedBy_def js_def)
  show ?thesis
    using thrown failed_call_keeps_history
      [of "handleGenerate \<lparr>history = [1, 2 :: nat], historyIndex = 0, isLoading = False, error = None\<rparr>
             (js ''make it blue'') (Some (3, 4))
             (Inl (JsError (js ''Request was blocked. Reason: SAFETY. ''))) (\<lambda>url. Inr 9) True"
          "\<lparr>history = [1, 2 :: nat], historyIndex = 0, isLoading = False, error = None\<rparr>"
          "(js ''make it blue'')" "Some (3, 4)"
          "Inl (JsError (js ''Request was blocked. Reason: SAFETY. ''))" "\<lambda>url. Inr 9" True
          None False False "Inl NonError" "JsError (js ''Request was blocked. Reason: SAFETY. '')"]
    by simp
qed

lemma js_trim_Nil_iff: "js_trim s = [] \<longleftrightarrow> list_all js_whitespace s"
proof
  assume "js_trim s = []"
  then have all: "\<forall>c \<in> set (dropWhile js_whitespace s). js_whitespace c"
    by (simp add: js_trim_def dropWhile_eq_Nil_conv)
  have "dropWhile js_whitespace s = []"
  proof (rule ccontr)
    assume ne: "dropWhile js_whitespace s \<noteq> []"
    then have "\<not> js_whitespace (hd (dropWhile js_whitespace s))"
      by (rule hd_dropWhile)
    moreover have "hd (dropWhile js_whitespace s) \<in> set (dropWhile js_whitespace s)"
      using ne by simp
    ultimately show False using all by blast
  qed
  then show "list_all js_whitespace s"
    by (simp add: list_all_iff)
next
  assume "list_all js_whitespace s"
  then have none: "dropWhile js_whitespace s = []"
    by (simp add: list_all_iff)
  show "js_trim s = []"
    unfolding js_trim_def none by simp
qed

lemma editOperation_busy: "busy_around_call s (editOperation svc outcome toFile cv extra)"
proof -
  have before: "takeWhile (\<lambda>e. \<not> is_call e) (editOperation svc outcome toFile cv extra)
                  = [Dispatch (SetIsLoading True), Dispatch (SetError None)]"
    by (rule editOperation_before_call)
  then have "isLoading (state_at_call s (editOperation svc outcome toFile cv extra))"
    by (simp add: state_at_call_def run_def setIsLoading_def setError_def)
  then show ?thesis
    using before editOperation_issues_call [of svc outcome toFile cv extra]
      editOperation_ends_not_loading [of s svc outcome toFile cv extra]
    by (simp add: busy_around_call_def)
qed

lemma handleMagicErase_past_guard:
  assumes "current s \<noteq> None" and "truthy maskDataUrl" and "canvas" and "img"
  shows "handleMagicErase s maskDataUrl canvas img maskCtx maskFile outcome toFile =
           [Dispatch (SetIsLoading True), Dispatch (SetError None)]
           @ (if \<not> maskCtx then [Dispatch (SetError (Some (js ''Could not create mask context.'')))]
              else (case maskFile of
                      Inl err \<Rightarrow> [Dispatch (SetError (Some (errorMessage err)))]
                    | Inr _ \<Rightarrow> tryEdit RemoveObjectWithMask outcome toFile True []))
           @ [Dispatch (SetIsLoading False)]"
proof -
  from assms(2) have "maskDataUrl \<noteq> None" "maskDataUrl \<noteq> Some []"
    by (cases maskDataUrl; simp)+
  with assms(1,3,4) show ?thesis
    by (simp add: handleMagicErase_def)
qed

text \<open>
  Claim C9. Every asynchronous edit handler of the editor page, run on inputs that pass
  its guard (a current image, and for \<^verbatim>\<open>handleGenerate\<close> a prompt that is not blank
  and a hotspot, for \<^verbatim>\<open>handleMagicErase\<close> a mask, the canvas and the image element),
  dispatches \<^verbatim>\<open>setIsLoading(true)\<close> before it issues the external call, so the flag
  is true at the call, and leaves \<^verbatim>\<open>isLoading\<close> false when it has finished, whether
  the call returned or threw. \<^verbatim>\<open>handleMagicErase\<close> can also throw before its call
  (no mask context, or a mask that does not convert): then it issues no call, and the
  flag it raised first is false at the end as well.
\<close>

theorem busy_flag_discipline:
  assumes "current s \<noteq> None"
  shows "(js_trim prompt \<noteq> [] \<and> editHotspot \<noteq> None \<longrightarrow>
            busy_around_call s (handleGenerate s prompt editHotspot outcome toFile canvas))
       \<and> busy_around_call s (handleApplyFilter s outcome toFile canvas)
       \<and> busy_around_call s (handleApplyAdjustment s outcome toFile canvas)
       \<and> busy_around_call s (handleRemoveBackground s outcome toFile canvas)
       \<and> busy_around_call s (handleUpscale s outcome toFile canvas)
       \<and> busy_around_call s (handleApplyArtStyle s outcome toFile canvas)
       \<and> (truthy maskDataUrl \<and> canvas \<and> img \<longrightarrow>
            take 2 (handleMagicErase s maskDataUrl canvas img maskCtx maskFile outcome toFile)
              = [Dispatch (SetIsLoading True), Dispatch (SetError None)]
          \<and> \<not> isLoading
                (run s (handleMagicErase s maskDataUrl canvas img maskCtx maskFile outcome toFile))
          \<and> (maskCtx \<and> maskFile = Inr f \<longrightarrow>
                busy_around_call s
                  (handleMagicErase s maskDataUrl canvas img maskCtx maskFile outcome toFile))
          \<and> (\<not> maskCtx \<or> maskFile = Inl e \<longrightarrow>
                \<not> issues_call
                  (handleMagicErase s maskDataUrl canvas img maskCtx maskFile outcome toFile)))"
proof -
  have generate: "busy_around_call s (handleGenerate s prompt editHotspot outcome toFile canvas)"
    if "js_trim prompt \<noteq> []" "editHotspot \<noteq> None"
    using that assms by (auto simp add: handleGenerate_def editOperation_busy)
  have others:
    "busy_around_call s (handleApplyFilter s outcome toFile canvas)"
    "busy_around_call s (handleApplyAdjustment s outcome toFile canvas)"
    "busy_around_call s (handleRemoveBackground s outcome toFile canvas)"
    "busy_around_call s (handleUpscale s outcome toFile canvas)"
    "busy_around_call s (handleApplyArtStyle s outcome toFile canvas)"
    using assms
    by (auto simp add: handleApplyFilter_def handleApplyAdjustment_def handleRemoveBackground_def
          handleUpscale_def handleApplyArtStyle_def editOperation_busy)
  have erase:
    "take 2 (handleMagicErase s maskDataUrl canvas img maskCtx maskFile outcome toFile)
       = [Dispatch (SetIsLoading True), Dispatch (SetError None)]
     \<and> \<not> isLoading
          (run s (handleMagicErase s maskDataUrl canvas img maskCtx maskFile outcome toFile))
     \<and> (maskCtx \<and> maskFile = Inr f \<longrightarrow>
          busy_around_call s
            (handleMagicErase s maskDataUrl canvas img maskCtx maskFile outcome toFile))
     \<and> (\<not> maskCtx \<or> maskFile = Inl e \<longrightarrow>
          \<not> issues_call
              (handleMagicErase s maskDataUrl canvas img maskCtx maskFile outcome toFile))"
    if guard: "truthy maskDataUrl" "canvas" "img"
  proof -
    let ?evs = "handleMagicErase s maskDataUrl canvas img maskCtx maskFile outcome toFile"
    note shape = handleMagicErase_past_guard [OF assms guard, of maskCtx maskFile outcome toFile]
    have first: "take 2 ?evs = [Dispatch (SetIsLoading True), Dispatch (SetError None)]"
      unfolding shape by simp
    have final: "\<not> isLoading (run s ?evs)"
      unfolding shape by (simp only: append_assoc [symmetric] run_ends_not_loading not_False_eq_True)
    have call: "busy_around_call s ?evs" if "maskCtx" "maskFile = Inr f"
    proof -
      have "?evs = editOperation RemoveObjectWithMask outcome toFile True []"
        unfolding shape using that by (simp add: editOperation_def)
      then show ?thesis by (simp add: editOperation_busy)
    qed
    have nocall: "\<not> issues_call ?evs" if "\<not> maskCtx \<or> maskFile = Inl e"
      unfolding shape using that by (auto simp add: issues_call_def)
    show ?thesis using first final call nocall by blast
  qed
  show ?thesis using generate others erase by blast
qed

theorem busy_flag_discipline_witness:
  "current \<lparr>history = [10, 20 :: nat], historyIndex = 1, isLoading = False, error = None\<rparr> \<noteq> None
   \<and> js_trim (js ''make it blue'') \<noteq> []
   \<and> truthy (Some (js ''data:image/png;base64,AAAA''))
   \<and> isLoading (state_at_call
       \<lparr>history = [10, 20 :: nat], historyIndex = 1, isLoading = False, error = None\<rparr>
       (handleGenerate
          \<lparr>history = [10, 20 :: nat], historyIndex = 1, isLoading = False, error = None\<rparr>
          (js ''make it blue'') (Some (3, 4)) (Inl NonError) (\<lambda>url. Inr 9) True))
   \<and> \<not> isLoading (run
       \<lparr>history = [10, 20 :: nat], historyIndex = 1, isLoading = False, error = None\<rparr>
       (handleGenerate
          \<lparr>history = [10, 20 :: nat], historyIndex = 1, isLoading = False, error = None\<rparr>
          (js ''make it blue'') (Some (3, 4)) (Inl NonError) (\<lambda>url. Inr 9) True))
   \<and> isLoading (state_at_call
       \<lparr>history = [10, 20 :: nat], historyIndex = 1, isLoading = False, error = None\<rparr>
       (handleApplyFilter
          \<lparr>history = [10, 20 :: nat], historyIndex = 1, isLoading = False, error = None\<rparr>
          (Inl NonError) (\<lambda>url. Inr 9) True))
   \<and> \<not> isLoading (run
       \<lparr>history = [10, 20 :: nat], historyIndex = 1, isLoading = False, error = None\<rparr>
       (handleApplyFilter
          \<lparr>history = [10, 20 :: nat], historyIndex = 1, isLoading = False, error = None\<rparr>
          (Inl NonError) (\<lambda>url. Inr 9) True))
   \<and> isLoading (state_at_call
       \<lparr>history = [10, 20 :: nat], historyIndex = 1, isLoading = False, error = None\<rparr>
       (handleMagicErase
          \<lparr>history = [10, 20 :: nat], historyIndex = 1, isLoading = False, error = None\<rparr>
          (Some (js ''data:image/png;base64,AAAA'')) True True True (Inr 7) (Inl NonError) (\<lambda>url. Inr 9)))
   \<and> \<not> isLoading (run
       \<lparr>history = [10, 20 :: nat], historyIndex = 1, isLoading = False, error = None\<rparr>
       (handleMagicErase
          \<lparr>history = [10, 20 :: nat], historyIndex = 1, isLoading = False, error = None\<rparr>
          (Some (js ''data:image/png;base64,AAAA'')) True True True (Inr 7) (Inl NonError) (\<lambda>url. Inr 9)))
   \<and> isLoading (state_at_call
       \<lparr>history = [10, 20 :: nat], historyIndex = 1, isLoading = False, error = None\<rparr>
       (handleGenerate
          \<lparr>history = [10, 20 :: nat], historyIndex = 1, isLoading = False, error = None\<rparr>
          (js ''make it blue'') (Some (3, 4)) (Inr (js ''data:image/png;base64,BBBB'')) (\<lambda>url. Inr 9) True))
   \<and> \<not> isLoading (run
       \<lparr>history = [10, 20 :: nat], historyIndex = 1, isLoading = False, error = None\<rparr>
       (handleGenerate
          \<lparr>history = [10, 20 :: nat], historyIndex = 1, isLoading = False, error = None\<rparr>
          (js ''make it blue'') (Some (3, 4)) (Inr (js ''data:image/png;base64,BBBB'')) (\<lambda>url. Inr 9) True))
   \<and> isLoading (state_at_call
       \<lparr>history = [10, 20 :: nat], historyIndex = 1, isLoading = False, error = None\<rparr>
       (handleApplyFilter
          \<lparr>history = [10, 20 :: nat], historyIndex = 1, isLoading = False, error = None\<rparr>
          (Inr (js ''data:image/png;base64,BBBB'')) (\<lambda>url. Inr 9) True))
   \<and> \<not> isLoading (run
       \<lparr>history = [10, 20 :: nat], historyIndex = 1, isLoading = False, error = None\<rparr>
       (handleApplyFilter
          \<lparr>history = [10, 20 :: nat], historyIndex = 1, isLoading = False, error = None\<rparr>
          (Inr (js ''data:image/png;base64,BBBB'')) (\<lambda>url. Inr 9) True))
   \<and> isLoading (state_at_call
       \<lparr>history = [10, 20 :: nat], historyIndex = 1, isLoading = False, error = None\<rparr>
       (handleMagicErase
          \<lparr>history = [10, 20 :: nat], historyIndex = 1, isLoading = False, error = None\<rparr>
          (Some (js ''data:image/png;base64,AAAA'')) True True True (Inr 7) (Inr (js ''data:image/png;base64,BBBB'')) (\<lambda>url. Inr 9)))
   \<and> \<not> isLoading (run
       \<lparr>history = [10, 20 :: nat], historyIndex = 1, isLoading = False, error = None\<rparr>
       (handleMagicErase
          \<lparr>history = [10, 20 :: nat], historyIndex = 1, isLoading = False, error = None\<rparr>
          (Some (js ''data:image/png;base64,AAAA'')) True True True (Inr 7) (Inr (js ''data:image/png;base64,BBBB'')) (\<lambda>url. Inr 9)))"
proof -
  have guard:
    "current \<lparr>history = [10, 20 :: nat], historyIndex = 1, isLoading = False, error = None\<rparr> \<noteq> None"
    "js_trim (js ''make it blue'') \<noteq> []"
    "truthy (Some (js ''data:image/png;base64,AAAA''))"
    by (simp_all add: current_def js_index_def js_trim_Nil_iff js_def js_whitespace_def)
  show ?thesis
    using guard
    busy_flag_discipline
      [where s = "\<lparr>history = [10, 20 :: nat], historyIndex = 1, isLoading = False, error = None\<rparr>"
         and prompt = "js ''make it blue''" and editHotspot = "Some (3, 4)"
         and outcome = "Inl NonError" and toFile = "\<lambda>url. Inr 9" and canvas = True
         and maskDataUrl = "Some (js ''data:image/png;base64,AAAA'')" and img = True and maskCtx = True
         and maskFile = "Inr 7" and f = 7 and e = NonError]
    busy_flag_discipline
      [where s = "\<lparr>history = [10, 20 :: nat], historyIndex = 1, isLoading = False, error = None\<rparr>"
         and prompt = "js ''make it blue''" and editHotspot = "Some (3, 4)"
         and outcome = "Inr (js ''data:image/png;base64,BBBB'')" and toFile = "\<lambda>url. Inr 9" and canvas = True
         and maskDataUrl = "Some (js ''data:image/png;base64,AAAA'')" and img = True and maskCtx = True
         and maskFile = "Inr 7" and f = 7 and e = NonError]
    by (simp add: busy_around_call_def)
qed

section \<open>Properties of the batch minter\<close>








end
